theory Spec2Isabelle
  imports Main "HOL-Library.Word"
begin

section \<open>JavaScript strings and numbers\<close>

text \<open>
  A JavaScript string is a sequence of 16-bit code units. String literals of the source are
  written \<open>js ''...''\<close>: every character of the literals in \<^verbatim>\<open>popup.js\<close> that the
  model uses is ASCII, so its code unit is its character code.

  A JavaScript number is an IEEE 754 double. The numbers that arise in \<^verbatim>\<open>popup.js\<close> are
  \<^verbatim>\<open>NaN\<close>, the two infinities and the doubles whose value is an integer; they are modelled by
  the type \<open>jsnumber\<close> below.
\<close>

type_synonym code_unit = "16 word"
type_synonym jsstring = "code_unit list"

definition js :: "string \<Rightarrow> jsstring" where
  "js = map of_char"

text \<open>
  The white space of ECMAScript (\<^verbatim>\<open>WhiteSpace\<close> and \<^verbatim>\<open>LineTerminator\<close>): what
  \<^verbatim>\<open>\s\<close> matches in a regular expression, what \<^verbatim>\<open>String.prototype.trim\<close> removes and
  what \<^verbatim>\<open>parseInt\<close> skips at the start of its argument.
\<close>

definition is_space :: "code_unit \<Rightarrow> bool" where
  "is_space c \<longleftrightarrow>
     c = 0x09 \<or> c = 0x0A \<or> c = 0x0B \<or> c = 0x0C \<or> c = 0x0D \<or> c = 0x20 \<or> c = 0xA0 \<or>
     c = 0x1680 \<or> (0x2000 \<le> c \<and> c \<le> 0x200A) \<or> c = 0x2028 \<or> c = 0x2029 \<or>
     c = 0x202F \<or> c = 0x205F \<or> c = 0x3000 \<or> c = 0xFEFF"

text \<open>\<^verbatim>\<open>\d\<close> (without the \<^verbatim>\<open>u\<close> flag) and the decimal digits of \<^verbatim>\<open>parseInt\<close>: \<^verbatim>\<open>0\<close> to \<^verbatim>\<open>9\<close>.\<close>

definition is_digit :: "code_unit \<Rightarrow> bool" where
  "is_digit c \<longleftrightarrow> 0x30 \<le> c \<and> c \<le> 0x39"

definition is_hex_digit :: "code_unit \<Rightarrow> bool" where
  "is_hex_digit c \<longleftrightarrow>
     is_digit c \<or> (0x41 \<le> c \<and> c \<le> 0x46) \<or> (0x61 \<le> c \<and> c \<le> 0x66)"

definition digit_value :: "code_unit \<Rightarrow> nat" where
  "digit_value c =
     (if is_digit c then unat c - 0x30
      else if 0x41 \<le> c \<and> c \<le> 0x46 then unat c - 0x41 + 10
      else unat c - 0x61 + 10)"

definition trim :: "jsstring \<Rightarrow> jsstring" where
  "trim s = rev (dropWhile is_space (rev (dropWhile is_space s)))"

subsection \<open>Numbers\<close>

text \<open>
  \<open>Num n\<close> is the double whose value is the integer \<open>n\<close>; \<open>Infinite True\<close> is
  \<^verbatim>\<open>Infinity\<close> and \<open>Infinite False\<close> is \<^verbatim>\<open>-Infinity\<close>. Minus zero is identified with
  zero: the program never divides and never prints the sign of a zero, and
  \<^verbatim>\<open>0 + (-0)\<close> is \<^verbatim>\<open>0\<close>.
\<close>

datatype jsnumber = NaN | Num int | Infinite bool

text \<open>The number of binary digits of a positive integer.\<close>

function width :: "int \<Rightarrow> nat" where
  "width n = (if n \<le> 0 then 0 else Suc (width (n div 2)))"
  by pat_completeness auto
termination
  by (relation "measure nat") auto

declare width.simps [simp del]

text \<open>
  The double nearest to an integer (round to nearest, ties to even).
  An integer of magnitude below \<open>2 ^ 53\<close> is a double. A larger one keeps its 53 leading
  binary digits \<open>q\<close>; the \<open>e\<close> digits \<open>r\<close> that are cut off round \<open>q\<close> up when they are
  more than half a unit of \<open>q\<close>, or exactly half a unit with \<open>q\<close> odd. The largest double
  is \<open>(2 ^ 53 - 1) * 2 ^ 971\<close>; what rounds to \<open>2 ^ 1024\<close> or more is infinite.
\<close>

definition to_double :: "int \<Rightarrow> jsnumber" where
  "to_double n =
     (let a = \<bar>n\<bar>
      in if a < 2 ^ 53 then Num n
         else
           (let e = width a - 53;
                q = a div 2 ^ e;
                r = a mod 2 ^ e;
                q' = (if 2 ^ e < 2 * r \<or> (2 * r = 2 ^ e \<and> odd q) then q + 1 else q);
                m = q' * 2 ^ e
            in if 2 ^ 1024 \<le> m then Infinite (0 \<le> n)
               else Num (if n < 0 then - m else m)))"

text \<open>
  \<^verbatim>\<open>a + b\<close> and \<^verbatim>\<open>a * b\<close> on numbers: the double nearest to the exact result. \<^verbatim>\<open>NaN\<close> is
  absorbing, and so is the sum of the two infinities and the product of an infinity and
  zero.
\<close>

fun js_add :: "jsnumber \<Rightarrow> jsnumber \<Rightarrow> jsnumber" where
  "js_add (Num a) (Num b) = to_double (a + b)"
| "js_add (Num a) (Infinite t) = Infinite t"
| "js_add (Infinite s) (Num b) = Infinite s"
| "js_add (Infinite s) (Infinite t) = (if s = t then Infinite s else NaN)"
| "js_add NaN b = NaN"
| "js_add a NaN = NaN"

fun js_mul :: "jsnumber \<Rightarrow> jsnumber \<Rightarrow> jsnumber" where
  "js_mul (Num a) (Num b) = to_double (a * b)"
| "js_mul (Num a) (Infinite t) = (if a = 0 then NaN else Infinite (t = (0 < a)))"
| "js_mul (Infinite s) (Num b) = (if b = 0 then NaN else Infinite (s = (0 < b)))"
| "js_mul (Infinite s) (Infinite t) = Infinite (s = t)"
| "js_mul NaN b = NaN"
| "js_mul a NaN = NaN"

text \<open>
  \<^verbatim>\<open>Math.pow(b, i)\<close> for an integer base and a non-negative integer exponent. The power is
  a double, and the result is exact, while it has at most 53 significant binary digits
  (\<open>60 ^ i\<close> up to \<open>i = 13\<close>); beyond that ECMAScript leaves the result to the
  implementation, and the model takes the nearest double.
\<close>

definition Math_pow :: "int \<Rightarrow> nat \<Rightarrow> jsnumber" where
  "Math_pow b i = to_double (b ^ i)"

subsection \<open>\<^verbatim>\<open>parseInt\<close> with no radix argument\<close>

text \<open>
  ECMAScript \<^verbatim>\<open>parseInt(string)\<close>: skip leading white space, read an optional sign, read an
  optional \<^verbatim>\<open>0x\<close>/\<^verbatim>\<open>0X\<close> prefix (which selects radix 16, otherwise 10), take the longest
  prefix of digits of that radix; the result is \<^verbatim>\<open>NaN\<close> when that prefix is empty, and the
  double nearest to its signed value otherwise. What follows the digits is ignored. (Past
  the 20th significant digit of a decimal numeral ECMAScript lets an implementation read
  zeros; the model reads the digits.)
\<close>

definition parseInt :: "jsstring \<Rightarrow> jsnumber" where
  "parseInt s =
     (let S = dropWhile is_space s;
          (sign, S1) = (case S of
                          [] \<Rightarrow> (1, S)
                        | c # cs \<Rightarrow> if c = 0x2D then (- 1, cs)
                                    else if c = 0x2B then (1, cs) else (1, S));
          (R, S2) = (case S1 of
                       a # b # cs \<Rightarrow> if a = 0x30 \<and> (b = 0x78 \<or> b = 0x58) then (16, cs)
                                       else (10, S1)
                     | _ \<Rightarrow> (10, S1));
          Z = takeWhile (if R = 16 then is_hex_digit else is_digit) S2
      in if Z = [] then NaN
         else to_double (sign * int (foldl (\<lambda>acc c. acc * R + digit_value c) 0 Z)))"

text \<open>The value of a string of decimal digits, as \<^verbatim>\<open>parseInt\<close> computes it.\<close>

definition dec_value :: "jsstring \<Rightarrow> nat" where
  "dec_value ds = foldl (\<lambda>acc c. acc * 10 + digit_value c) 0 ds"

subsection \<open>\<^verbatim>\<open>String.prototype.split\<close> with a one-character separator\<close>

text \<open>
  \<open>js_split_acc sep cur s\<close> splits \<open>s\<close> at every \<open>sep\<close>; \<open>cur\<close> holds, reversed, the
  characters of the piece being read. The result is never empty: the empty string splits
  into one empty piece.
\<close>

fun js_split_acc :: "code_unit \<Rightarrow> jsstring \<Rightarrow> jsstring \<Rightarrow> jsstring list" where
  "js_split_acc sep cur [] = [rev cur]"
| "js_split_acc sep cur (c # cs) =
     (if c = sep then rev cur # js_split_acc sep [] cs
      else js_split_acc sep (c # cur) cs)"

definition js_split :: "code_unit \<Rightarrow> jsstring \<Rightarrow> jsstring list" where
  "js_split sep s = js_split_acc sep [] s"

section \<open>Timestamp utilities\<close>

text \<open>
  \<^verbatim>\<open>timestampToSeconds(hms)\<close>: split at the colons, reverse, and add
  \<^verbatim>\<open>parseInt(parts[i]) * Math.pow(60, i)\<close> for every index \<open>i\<close>, starting from 0.
  \<open>timestampToSeconds_loop parts i seconds\<close> is the \<^verbatim>\<open>for\<close> loop from index \<open>i\<close> on, with
  \<open>parts\<close> the pieces not yet visited.
\<close>

fun timestampToSeconds_loop :: "jsstring list \<Rightarrow> nat \<Rightarrow> jsnumber \<Rightarrow> jsnumber" where
  "timestampToSeconds_loop [] i seconds = seconds"
| "timestampToSeconds_loop (p # ps) i seconds =
     timestampToSeconds_loop ps (Suc i) (js_add seconds (js_mul (parseInt p) (Math_pow 60 i)))"

definition timestampToSeconds :: "jsstring \<Rightarrow> jsnumber" where
  "timestampToSeconds hms = timestampToSeconds_loop (rev (js_split 0x3A hms)) 0 (Num 0)"

subsection \<open>The citation label\<close>

text \<open>
  Decimal digits of a natural number, most significant first: what the template literal
  \<^verbatim>\<open>${seconds}\<close> prints for a non-negative integer below \<open>10 ^ 21\<close>, and what a formatter
  prints for a field of a label.
\<close>

function decimal :: "nat \<Rightarrow> jsstring" where
  "decimal n = (if n < 10 then [of_nat (0x30 + n)]
                else decimal (n div 10) @ [of_nat (0x30 + n mod 10)])"
  by pat_completeness auto
termination
  by (relation "measure id") auto

declare decimal.simps [simp del]

definition pad2 :: "nat \<Rightarrow> jsstring" where
  "pad2 n = (if n < 10 then 0x30 # decimal n else decimal n)"

text \<open>
  Modelled from the spec: the Citation Mapper's formatting rule (\<^verbatim>\<open>map_to_citation\<close>), which
  belongs to the backend and is not part of the sources. A duration of \<open>d\<close> seconds is written
  \<^verbatim>\<open>MM:SS\<close> when its hour component is zero and \<^verbatim>\<open>HH:MM:SS\<close> otherwise, every field with at
  least two digits.
\<close>

definition map_to_citation :: "nat \<Rightarrow> jsstring" where
  "map_to_citation d =
     (let h = d div 3600; m = (d mod 3600) div 60; s = d mod 60
      in if h = 0 then pad2 m @ [0x3A] @ pad2 s
         else pad2 h @ [0x3A] @ pad2 m @ [0x3A] @ pad2 s)"

section \<open>Regular expressions\<close>

text \<open>
  The fragment of ECMAScript regular expressions that \<^verbatim>\<open>linkifyTimestamps\<close> uses: character
  classes, concatenation, the greedy quantifiers \<^verbatim>\<open>?\<close> and \<^verbatim>\<open>*\<close>, and capture groups.
  \<^verbatim>\<open>x{2}\<close> is \<open>Cat x x\<close> and \<^verbatim>\<open>x{1,2}\<close> is \<open>Cat x (Opt x)\<close>.

  A matcher state is the input not yet consumed together with the captures made so far.
  \<open>matches r st\<close> lists the states in which \<open>r\<close> can finish when started in \<open>st\<close>, in
  the order in which a backtracking matcher tries them: a greedy quantifier first tries one
  more iteration, then none. An iteration that consumes nothing is rejected, as in
  ECMAScript's \<^verbatim>\<open>RepeatMatcher\<close>.
\<close>

type_synonym captures = "(nat \<times> jsstring) list"
type_synonym mstate = "jsstring \<times> captures"

datatype rx =
    Cls "code_unit \<Rightarrow> bool"
  | Cat rx rx
  | Opt rx
  | Star rx
  | Grp nat rx

fun matches :: "rx \<Rightarrow> mstate \<Rightarrow> mstate list" where
  "matches (Cls p) st =
     (case fst st of [] \<Rightarrow> [] | c # cs \<Rightarrow> if p c then [(cs, snd st)] else [])"
| "matches (Cat a b) st = concat (map (matches b) (matches a st))"
| "matches (Opt a) st =
     filter (\<lambda>st'. length (fst st') < length (fst st)) (matches a st) @ [st]"
| "matches (Star a) st =
     concat (map (\<lambda>st'. if length (fst st') < length (fst st) then matches (Star a) st' else [])
                 (matches a st)) @ [st]"
| "matches (Grp i a) st =
     map (\<lambda>st'. (fst st', (i, take (length (fst st) - length (fst st')) (fst st)) # snd st'))
         (matches a st)"

text \<open>
  The equation of \<open>Star\<close> is applied by hand in proofs: as a rewrite rule it would unfold
  for ever.
\<close>

declare matches.simps(4) [simp del]

text \<open>
  One attempt of the regular expression at the start of \<open>s\<close>: the first way to match in
  backtracking order, as the input that remains and the captures.
\<close>

definition regex_exec_at :: "rx \<Rightarrow> jsstring \<Rightarrow> mstate option" where
  "regex_exec_at r s = (case matches r (s, []) of [] \<Rightarrow> None | st # _ \<Rightarrow> Some st)"

text \<open>
  \<^verbatim>\<open>String.prototype.replace\<close> with a global regular expression and a replacer function:
  the matches are searched from left to right, each search starting where the previous
  match ended (one character further after an empty match); every match is replaced by what
  the replacer returns for the matched text and the captures, and the text between the
  matches is copied. \<open>None\<close> is an exception thrown by the replacer.
\<close>

function replace_global ::
  "rx \<Rightarrow> (jsstring \<Rightarrow> captures \<Rightarrow> jsstring option) \<Rightarrow> jsstring \<Rightarrow> jsstring option" where
  "replace_global r f s =
     (case regex_exec_at r s of
        None \<Rightarrow> (case s of [] \<Rightarrow> Some []
                 | c # cs \<Rightarrow> map_option ((#) c) (replace_global r f cs))
      | Some (rest, caps) \<Rightarrow>
          (case f (take (length s - length rest) s) caps of
             None \<Rightarrow> None
           | Some out \<Rightarrow>
               if length rest < length s
               then map_option ((@) out) (replace_global r f rest)
               else (case s of [] \<Rightarrow> Some out
                     | c # cs \<Rightarrow> map_option (\<lambda>t. out @ c # t) (replace_global r f cs))))"
  by pat_completeness auto
termination
  by (relation "measure (\<lambda>(r, f, s). length s)") auto

declare replace_global.simps [simp del]

section \<open>Linking the timestamps of an answer\<close>

text \<open>
  The regular expression of \<^verbatim>\<open>linkifyTimestamps\<close>,
  \<^verbatim>\<open>/[\[\(]?(\d{1,2}:\d{2}(?::\d{2})?)(?:\s*-\s*(\d{1,2}:\d{2}(?::\d{2})?))?[\]\)]?/g\<close>.
\<close>

definition rx_digit :: rx where
  "rx_digit = Cls is_digit"

definition rx_colon :: rx where
  "rx_colon = Cls (\<lambda>c. c = 0x3A)"

definition rx_timestamp :: rx where
  \<comment> \<open>\<^verbatim>\<open>\d{1,2}:\d{2}(?::\d{2})?\<close>\<close>
  "rx_timestamp =
     Cat rx_digit (Cat (Opt rx_digit) (Cat rx_colon (Cat rx_digit (Cat rx_digit
       (Opt (Cat rx_colon (Cat rx_digit rx_digit)))))))"

definition rx_range :: rx where
  \<comment> \<open>\<^verbatim>\<open>\s*-\s*(\d{1,2}:\d{2}(?::\d{2})?)\<close>, the second capture group\<close>
  "rx_range =
     Cat (Star (Cls is_space)) (Cat (Cls (\<lambda>c. c = 0x2D)) (Cat (Star (Cls is_space))
       (Grp 2 rx_timestamp)))"

definition linkify_regex :: rx where
  "linkify_regex =
     Cat (Opt (Cls (\<lambda>c. c = 0x5B \<or> c = 0x28)))
       (Cat (Grp 1 rx_timestamp)
         (Cat (Opt rx_range)
           (Opt (Cls (\<lambda>c. c = 0x5D \<or> c = 0x29)))))"

text \<open>
  What a template literal prints for a number: \<^verbatim>\<open>NaN\<close>, \<^verbatim>\<open>Infinity\<close> with its sign, or
  the decimal digits of an integer (of magnitude below \<open>10 ^ 21\<close>; larger numbers are
  printed with an exponent, which is not modelled).
\<close>

definition number_to_string :: "jsnumber \<Rightarrow> jsstring" where
  "number_to_string x =
     (case x of
        NaN \<Rightarrow> js ''NaN''
      | Infinite pos \<Rightarrow> if pos then js ''Infinity'' else js ''-Infinity''
      | Num n \<Rightarrow> if n < 0 then 0x2D # decimal (nat (- n)) else decimal (nat n))"

text \<open>The anchor that replaces a match, for the seconds printed in its \<^verbatim>\<open>data-time\<close>.\<close>

definition time_link :: "jsnumber \<Rightarrow> jsstring \<Rightarrow> jsstring" where
  \<open>time_link seconds match =
     js ''<a href="#" class="time-link" data-time="'' @ number_to_string seconds
       @ js ''">'' @ match @ js ''</a>''\<close>

text \<open>
  The replacer \<^verbatim>\<open>(match, startTime) => ...\<close>: \<open>startTime\<close> is the first capture group. On a
  group that did not take part in the match it would be \<^verbatim>\<open>undefined\<close>, and
  \<^verbatim>\<open>timestampToSeconds\<close> would throw a \<^verbatim>\<open>TypeError\<close> at \<^verbatim>\<open>hms.split\<close>.
\<close>

definition linkify_replacer :: "jsstring \<Rightarrow> captures \<Rightarrow> jsstring option" where
  "linkify_replacer match caps =
     (case map_of caps 1 of
        None \<Rightarrow> None
      | Some startTime \<Rightarrow> Some (time_link (timestampToSeconds startTime) match))"

definition linkifyTimestamps :: "jsstring \<Rightarrow> jsstring option" where
  "linkifyTimestamps text = replace_global linkify_regex linkify_replacer text"

section \<open>Timestamp markers\<close>

text \<open>
  The first way to match from a state, \<open>None\<close> when there is none;
  \<open>regex_exec_at r s\<close> is \<open>first_match r (s, [])\<close>.
\<close>

definition first_match :: "rx \<Rightarrow> mstate \<Rightarrow> mstate option" where
  "first_match r st = (case matches r st of [] \<Rightarrow> None | y # _ \<Rightarrow> Some y)"



definition rx_third :: rx where
  "rx_third = Cat rx_colon (Cat rx_digit rx_digit)"

definition rx_mmss_tail :: rx where
  "rx_mmss_tail = Cat rx_colon (Cat rx_digit (Cat rx_digit (Opt rx_third)))"



subsection \<open>The forms of a timestamp\<close>




subsection \<open>The context of a bare timestamp\<close>









subsection \<open>Notions for the proofs about the matcher\<close>

text \<open>
  \<open>rejects r x\<close>: no character class of \<open>r\<close> contains \<open>x\<close>. \<open>lift w st\<close>: the state \<open>st\<close>
  with \<open>w\<close> appended to its input. \<open>groups r\<close>: the numbers of the capture groups of \<open>r\<close>.
\<close>

fun rejects :: "rx \<Rightarrow> code_unit \<Rightarrow> bool" where
  "rejects (Cls p) x = (\<not> p x)"
| "rejects (Cat a b) x = (rejects a x \<and> rejects b x)"
| "rejects (Opt a) x = rejects a x"
| "rejects (Star a) x = rejects a x"
| "rejects (Grp i a) x = rejects a x"

definition lift :: "jsstring \<Rightarrow> mstate \<Rightarrow> mstate" where
  "lift w st = (fst st @ w, snd st)"


section \<open>The popup: data\<close>

text \<open>A record of the transcript, as \<^verbatim>\<open>surgicalExtract\<close> builds it: \<^verbatim>\<open>{time, text}\<close>.\<close>

record transcript_record =
  time :: jsstring
  "text" :: jsstring

text \<open>A message of a chat history: \<^verbatim>\<open>{sender, text, isHTML}\<close>.\<close>

record chat_message =
  sender :: jsstring
  msg_text :: jsstring
  isHTML :: bool

text \<open>
  A session, as the resync handler stores it under \<^verbatim>\<open>sessions[id]\<close>:
  \<^verbatim>\<open>{timestamp, videoUrl, chatHistory, transcriptData}\<close>. The \<^verbatim>\<open>sessions\<close> object of
  \<^verbatim>\<open>chrome.storage.local\<close> maps session ids to sessions.
\<close>

record session =
  timestamp :: jsstring
  videoUrl :: jsstring
  chatHistory :: "chat_message list"
  transcriptData :: "transcript_record list"

type_synonym sessions = "jsstring \<rightharpoonup> session"

text \<open>
  A JavaScript value is truthy unless it is \<^verbatim>\<open>null\<close>, \<^verbatim>\<open>undefined\<close> or (for a string) empty;
  \<open>None\<close> stands for \<^verbatim>\<open>null\<close> and \<^verbatim>\<open>undefined\<close>. \<^verbatim>\<open>a || b\<close> is \<open>a\<close> when \<open>a\<close> is truthy and
  \<open>b\<close> otherwise. As a property key, \<^verbatim>\<open>null\<close> is the string \<^verbatim>\<open>"null"\<close>.
\<close>

definition truthy :: "jsstring option \<Rightarrow> bool" where
  "truthy x = (case x of None \<Rightarrow> False | Some s \<Rightarrow> s \<noteq> [])"

definition js_or :: "jsstring option \<Rightarrow> jsstring \<Rightarrow> jsstring" where
  "js_or a b = (case a of None \<Rightarrow> b | Some s \<Rightarrow> if s = [] then b else s)"

definition property_key :: "jsstring option \<Rightarrow> jsstring" where
  "property_key x = (case x of None \<Rightarrow> js ''null'' | Some s \<Rightarrow> s)"

text \<open>\<^verbatim>\<open>String.prototype.includes\<close>: the pattern occurs somewhere in the string.\<close>

fun js_includes :: "jsstring \<Rightarrow> jsstring \<Rightarrow> bool" where
  "js_includes [] p = (p = [])"
| "js_includes (c # cs) p = (take (length p) (c # cs) = p \<or> js_includes cs p)"

subsection \<open>Requests to the backend\<close>

text \<open>The values that \<^verbatim>\<open>JSON.stringify\<close> receives as request bodies.\<close>

datatype json =
    JString jsstring
  | JArray "json list"
  | JObject "(jsstring \<times> json) list"

definition transcript_json :: "transcript_record list \<Rightarrow> json" where
  "transcript_json t =
     JArray (map (\<lambda>r. JObject [(js ''time'', JString (time r)), (js ''text'', JString (text r))]) t)"

record http_request =
  url :: jsstring
  http_method :: jsstring
  headers :: "(jsstring \<times> jsstring) list"
  body :: "json option"

definition BACKEND_URL :: jsstring where
  "BACKEND_URL = js ''https://omnbhaltilak-youtube-rag-backend.hf.space''"

definition save_transcript_request :: "transcript_record list \<Rightarrow> http_request" where
  "save_transcript_request t =
     \<lparr>url = BACKEND_URL @ js ''/save_transcript'', http_method = js ''POST'',
      headers = [(js ''Content-Type'', js ''application/json'')],
      body = Some (JObject [(js ''transcript'', transcript_json t)])\<rparr>"

definition clear_context_request :: http_request where
  "clear_context_request =
     \<lparr>url = BACKEND_URL @ js ''/clear_context'', http_method = js ''POST'',
      headers = [], body = None\<rparr>"

definition chat_request :: "jsstring \<Rightarrow> jsstring \<Rightarrow> bool \<Rightarrow> http_request" where
  "chat_request hfToken question isDetailed =
     \<lparr>url = BACKEND_URL @ js ''/chat'', http_method = js ''POST'',
      headers = [(js ''Content-Type'', js ''application/json''), (js ''X-HF-Token'', hfToken)],
      body = Some (JObject [(js ''question'', JString question),
                            (js ''mode'', JString (if isDetailed then js ''detailed''
                                                   else js ''concise''))])\<rparr>"

text \<open>
  What \<^verbatim>\<open>await fetch(...)\<close> gives: the promise rejects (\<open>NetworkError\<close>), or there is a
  response with its \<^verbatim>\<open>ok\<close> flag and what the handler reads from its body.
\<close>

datatype 'b fetch_result = NetworkError | Response bool 'b

text \<open>
  What \<^verbatim>\<open>await res.json()\<close> and \<^verbatim>\<open>data.answer\<close> give for the response of \<^verbatim>\<open>/chat\<close>: an
  exception (the body is no JSON, or it is \<^verbatim>\<open>null\<close>), or the \<^verbatim>\<open>answer\<close> field, \<open>None\<close> when
  the field is missing.
\<close>

datatype chat_payload = JsonThrows | JsonData "jsstring option"

subsection \<open>Calls to \<^verbatim>\<open>chrome.storage.local\<close>\<close>

text \<open>
  Every write to \<^verbatim>\<open>sessions\<close> happens in the callback of a
  \<^verbatim>\<open>chrome.storage.local.get({ sessions: {} }, callback)\<close>. A \<open>storage_callback\<close> is such a
  callback together with the local variables it has captured: that of the resync handler
  (\<^verbatim>\<open>tab.url\<close> and \<^verbatim>\<open>transcriptData\<close>), of \<^verbatim>\<open>appendMessage\<close> (the message), of
  \<^verbatim>\<open>performFullClear\<close> and of \<^verbatim>\<open>clearSelectedHistory\<close> (the selected ids).

  \<open>run_callback cb cur now data\<close> runs the callback on the snapshot \<open>data\<close> of \<^verbatim>\<open>sessions\<close>,
  with \<open>cur\<close> the value of the global \<^verbatim>\<open>currentSessionId\<close> and \<open>now\<close> the value of
  \<^verbatim>\<open>new Date().toLocaleString()\<close> when the callback runs. The result is the object passed
  to \<^verbatim>\<open>chrome.storage.local.set\<close>, or \<open>None\<close> when the callback does not call it.
\<close>

datatype storage_callback =
    SaveNewSession jsstring "transcript_record list"
  | SaveMessage chat_message
  | DeleteCurrent
  | DeleteSelected "jsstring list"

fun run_callback ::
  "storage_callback \<Rightarrow> jsstring option \<Rightarrow> jsstring \<Rightarrow> sessions \<Rightarrow> sessions option" where
  "run_callback (SaveNewSession tab_url transcript) cur now data =
     Some (data(property_key cur \<mapsto>
       \<lparr>timestamp = now, videoUrl = tab_url, chatHistory = [], transcriptData = transcript\<rparr>))"
| "run_callback (SaveMessage m) cur now data =
     (case data (property_key cur) of
        None \<Rightarrow> None
      | Some s \<Rightarrow>
          Some (data(property_key cur \<mapsto> s\<lparr>chatHistory := chatHistory s @ [m], timestamp := now\<rparr>)))"
| "run_callback DeleteCurrent cur now data =
     (case data (property_key cur) of
        None \<Rightarrow> None
      | Some s \<Rightarrow> Some (data(property_key cur := None)))"
| "run_callback (DeleteSelected selected) cur now data =
     Some (fold (\<lambda>sid d. d(sid := None)) selected data)"

section \<open>The popup: state and handlers\<close>

text \<open>
  The state of the popup that the handlers read and write: the global
  \<^verbatim>\<open>currentSessionId\<close>, the message bubbles of \<^verbatim>\<open>#chat-container\<close> (each with the identity
  of its node, so that \<^verbatim>\<open>remove()\<close> can take it out), the controls, and the calls made so
  far to \<^verbatim>\<open>fetch\<close> and to \<^verbatim>\<open>chrome.storage.local.get\<close> with a writing callback, in order.
  The elements that \<^verbatim>\<open>popup.js\<close> looks up by id are taken to exist.
\<close>

record bubble =
  node :: nat
  className :: jsstring
  content :: jsstring
  html :: bool
  typewriter :: bool

record popup =
  currentSessionId :: "jsstring option"
  chat :: "bubble list"
  next_node :: nat
  questionInput_value :: jsstring
  questionInput_disabled :: bool
  askBtn_disabled :: bool
  askIcon_className :: jsstring
  resyncBtn_disabled :: bool
  syncIcon_spinning :: bool
  active_tab :: jsstring
  requests :: "http_request list"
  storage_calls :: "storage_callback list"

text \<open>
  \<^verbatim>\<open>appendMessage(sender, text, isHTML, useTypewriter, shouldSave)\<close> adds a bubble and, when
  \<^verbatim>\<open>shouldSave && currentSessionId\<close>, asks the storage for \<^verbatim>\<open>sessions\<close> with the callback that
  saves the message. It returns the node of the bubble.
\<close>

definition appendMessage ::
  "jsstring \<Rightarrow> jsstring \<Rightarrow> bool \<Rightarrow> bool \<Rightarrow> bool \<Rightarrow> popup \<Rightarrow> nat \<times> popup" where
  "appendMessage sndr txt is_html useTypewriter shouldSave st =
     (let msgDiv = \<lparr>node = next_node st,
                    className = js ''message '' @ sndr @ js ''-message'',
                    content = txt, html = is_html, typewriter = (useTypewriter \<and> is_html)\<rparr>;
          st1 = st\<lparr>chat := chat st @ [msgDiv], next_node := Suc (next_node st)\<rparr>
      in (node msgDiv,
          if shouldSave \<and> truthy (currentSessionId st)
          then st1\<lparr>storage_calls := storage_calls st1
                      @ [SaveMessage \<lparr>sender = sndr, msg_text = txt, isHTML = is_html\<rparr>]\<rparr>
          else st1))"

definition remove_node :: "nat \<Rightarrow> popup \<Rightarrow> popup" where
  "remove_node n st = st\<lparr>chat := filter (\<lambda>b. node b \<noteq> n) (chat st)\<rparr>"

definition fetch :: "http_request \<Rightarrow> popup \<Rightarrow> popup" where
  "fetch r st = st\<lparr>requests := requests st @ [r]\<rparr>"

definition storage_get :: "storage_callback \<Rightarrow> popup \<Rightarrow> popup" where
  "storage_get cb st = st\<lparr>storage_calls := storage_calls st @ [cb]\<rparr>"

subsection \<open>\<^verbatim>\<open>surgicalExtract\<close>\<close>

text \<open>
  A \<^verbatim>\<open>ytd-transcript-segment-renderer\<close> node of the page, as \<^verbatim>\<open>surgicalExtract\<close> reads it: the
  \<^verbatim>\<open>textContent\<close> of its \<^verbatim>\<open>.segment-timestamp\<close> and \<^verbatim>\<open>.segment-text\<close> descendants, \<open>None\<close> for
  a descendant that \<^verbatim>\<open>querySelector\<close> does not find. The argument of \<open>surgicalExtract\<close> is
  the list of these nodes once the transcript panel has been opened and waited for.
\<close>

record segment_node =
  segment_timestamp :: "jsstring option"
  segment_text :: "jsstring option"

definition surgicalExtract :: "segment_node list \<Rightarrow> transcript_record list option" where
  "surgicalExtract segments =
     (if length segments = 0 then None
      else Some (map (\<lambda>s. \<lparr>time = js_or (map_option trim (segment_timestamp s)) (js ''0:00''),
                            text = js_or (map_option trim (segment_text s)) (js '''')\<rparr>)
                     segments))"

subsection \<open>The resync handler\<close>

text \<open>
  What \<^verbatim>\<open>chrome.scripting.executeScript\<close> gives for \<^verbatim>\<open>surgicalExtract\<close>: an exception, or the
  run of the function on the page.
\<close>

datatype script_outcome = ScriptThrows | ScriptRuns "segment_node list"

definition resync_catch :: "popup \<Rightarrow> popup" where
  "resync_catch st =
     snd (appendMessage (js ''system'')
            ([0x274C] @ js '' Sync Failed: Ensure subtitles are available and the server is running.'')
            False False False st)"

definition resync_finally :: "popup \<Rightarrow> popup" where
  "resync_finally st = st\<lparr>syncIcon_spinning := False, resyncBtn_disabled := False\<rparr>"

definition resync_not_valid :: "popup \<Rightarrow> popup" where
  "resync_not_valid st =
     snd (appendMessage (js ''system'') ([0x274C] @ js '' Not a valid YouTube video.'')
            False False False st)"

text \<open>
  The click on \<^verbatim>\<open>#resyncBtn\<close>, for the active tab (its URL, \<open>None\<close> when there is none), the
  outcome of the script, the outcome of the \<^verbatim>\<open>fetch\<close> (read only when the request is made)
  and the value of \<^verbatim>\<open>Date.now().toString()\<close>.
\<close>

definition resyncBtn_click ::
  "jsstring option \<Rightarrow> script_outcome \<Rightarrow> unit fetch_result \<Rightarrow> jsstring \<Rightarrow> popup \<Rightarrow> popup" where
  "resyncBtn_click tab script res now_ms st =
     (case tab of
        None \<Rightarrow> resync_not_valid st
      | Some tab_url \<Rightarrow>
          if \<not> js_includes tab_url (js ''youtube.com/watch'') then resync_not_valid st
          else
            (let st1 = st\<lparr>syncIcon_spinning := True, resyncBtn_disabled := True, chat := []\<rparr>;
                 (syncMsg, st2) = appendMessage (js ''system'')
                    ([0xD83D, 0xDE80] @ js '' <b>Syncing New Video...</b>'') True False False st1
             in resync_finally
                  (case script of
                     ScriptThrows \<Rightarrow> resync_catch st2
                   | ScriptRuns page \<Rightarrow>
                       (case surgicalExtract page of
                          None \<Rightarrow> resync_catch st2
                        | Some transcript \<Rightarrow>
                            (let st3 = fetch (save_transcript_request transcript) st2
                             in case res of
                                  NetworkError \<Rightarrow> resync_catch st3
                                | Response ok u \<Rightarrow>
                                    if \<not> ok then resync_catch st3
                                    else
                                      (let st4 = st3\<lparr>currentSessionId := Some now_ms\<rparr>;
                                           st5 = storage_get (SaveNewSession tab_url transcript) st4;
                                           st6 = remove_node syncMsg st5;
                                           st7 = snd (appendMessage (js ''system'')
                                                   ([0x2728] @ js '' <b>Ready.</b> Session started.'')
                                                   True False True st6)
                                       in st7\<lparr>questionInput_disabled := False,
                                              askBtn_disabled := False\<rparr>))))))"

subsection \<open>Restoring a session\<close>

text \<open>
  \<^verbatim>\<open>data.sessions[id]\<close> reads the object that the storage returned: the session stored
  under the id when there is one, and otherwise what the object inherits from
  \<^verbatim>\<open>Object.prototype\<close> under that name (a function or an object, with none of the fields
  of a session), or \<^verbatim>\<open>undefined\<close>.
\<close>

datatype session_read = Undefined | Inherited | Stored session

definition object_prototype_keys :: "jsstring list" where
  "object_prototype_keys =
     [js ''constructor'', js ''__defineGetter__'', js ''__defineSetter__'',
      js ''hasOwnProperty'', js ''__lookupGetter__'', js ''__lookupSetter__'',
      js ''isPrototypeOf'', js ''propertyIsEnumerable'', js ''toString'', js ''valueOf'',
      js ''__proto__'', js ''toLocaleString'']"

definition sessions_read :: "sessions \<Rightarrow> jsstring \<Rightarrow> session_read" where
  "sessions_read data sid =
     (case data sid of
        Some s \<Rightarrow> Stored s
      | None \<Rightarrow> if sid \<in> set object_prototype_keys then Inherited else Undefined)"

text \<open>
  \<^verbatim>\<open>loadSpecificSession(id)\<close> for the id \<open>sid\<close>, from the callback of its read of the
  storage on: \<open>data\<close> is the \<^verbatim>\<open>sessions\<close> object read, \<open>res\<close> the outcome of the \<^verbatim>\<open>fetch\<close>.
  On an inherited value \<^verbatim>\<open>session.transcriptData\<close> is \<^verbatim>\<open>undefined\<close>, a field that
  \<^verbatim>\<open>JSON.stringify\<close> leaves out, and \<^verbatim>\<open>session.chatHistory.forEach\<close> throws a
  \<^verbatim>\<open>TypeError\<close>, which the \<^verbatim>\<open>catch\<close> block handles (the loading message is removed
  already; removing it again changes nothing).
\<close>

definition loadSpecificSession ::
  "jsstring \<Rightarrow> sessions \<Rightarrow> unit fetch_result \<Rightarrow> popup \<Rightarrow> popup" where
  "loadSpecificSession sid data res st =
     (let session = sessions_read data sid
      in if session = Undefined then st
         else
          (let st1 = st\<lparr>currentSessionId := Some sid, chat := []\<rparr>;
               (loadingMsg, st2) = appendMessage (js ''system'')
                  ([0x23F3] @ js '' Restoring video context...'') False False False st1;
               st3 = fetch (case session of
                              Stored s \<Rightarrow> save_transcript_request (transcriptData s)
                            | _ \<Rightarrow> (save_transcript_request [])\<lparr>body := Some (JObject [])\<rparr>)
                           st2;
               failed = snd (appendMessage (js ''system'')
                  ([0x274C] @ js '' Failed to restore context with server. Ensure the server is running.'')
                  False False False (remove_node loadingMsg st3))
           in case res of
                NetworkError \<Rightarrow> failed
              | Response ok u \<Rightarrow>
                  if ok then
                    (case session of
                       Stored s \<Rightarrow>
                         (let st4 = remove_node loadingMsg st3;
                              st5 = fold (\<lambda>msg s. snd (appendMessage (sender msg) (msg_text msg)
                                                          (isHTML msg) False False s))
                                         (chatHistory s) st4
                          in st5\<lparr>active_tab := js ''tab-chat'', questionInput_disabled := False,
                                 askBtn_disabled := False\<rparr>)
                     | _ \<Rightarrow> failed)
                  else failed))"

subsection \<open>Clearing\<close>

text \<open>
  \<^verbatim>\<open>performFullClear\<close>, for the answer to \<^verbatim>\<open>confirm\<close> and the outcome of the \<^verbatim>\<open>fetch\<close>. The
  callback that deletes the session is only registered here; it runs after the handler has
  set \<^verbatim>\<open>currentSessionId\<close> to \<^verbatim>\<open>null\<close> (see \<open>run_callback\<close>).
\<close>

definition performFullClear :: "bool \<Rightarrow> unit fetch_result \<Rightarrow> popup \<Rightarrow> popup" where
  "performFullClear confirmClear res st =
     (if \<not> truthy (currentSessionId st) then st\<lparr>chat := []\<rparr>
      else if \<not> confirmClear then st
      else
        (let st1 = fetch clear_context_request st
         in case res of
              NetworkError \<Rightarrow>
                snd (appendMessage (js ''system'')
                       ([0x26A0, 0xFE0F] @ js '' Data cleared locally, but server reset failed.'')
                       False False False st1)
            | Response ok u \<Rightarrow>
                (let st2 = storage_get DeleteCurrent st1;
                     st3 = st2\<lparr>chat := [], currentSessionId := None,
                               questionInput_disabled := True, askBtn_disabled := True\<rparr>
                 in snd (appendMessage (js ''system'')
                           ([0xD83E, 0xDDF9] @ js '' <b>Wiped:</b> Session deleted from browser and server.'')
                           True False False st3))))"

text \<open>
  \<^verbatim>\<open>clearSelectedHistory\<close>, for the values of the checked \<^verbatim>\<open>.delete-checkbox\<close> elements.
\<close>

definition clearSelectedHistory :: "jsstring list \<Rightarrow> popup \<Rightarrow> popup" where
  "clearSelectedHistory selected st =
     (if length selected = 0 then st else storage_get (DeleteSelected selected) st)"

subsection \<open>Asking a question\<close>

definition br_newlines :: "jsstring \<Rightarrow> jsstring" where
  \<comment> \<open>\<^verbatim>\<open>.replace(/\n/g, "<br>")\<close>\<close>
  "br_newlines s = concat (map (\<lambda>c. if c = 0x0A then js ''<br>'' else [c]) s)"

definition ask_catch :: "nat \<Rightarrow> popup \<Rightarrow> popup" where
  "ask_catch loadingMsg st =
     snd (appendMessage (js ''system'')
            ([0x274C] @ js '' Chat Error: Make sure your Python backend is running.'')
            False False False (remove_node loadingMsg st))"

text \<open>
  The click on \<^verbatim>\<open>#askBtn\<close>, for the state of the \<^verbatim>\<open>#modeDetailed\<close> checkbox, the stored
  \<^verbatim>\<open>hfToken\<close> and the outcome of the \<^verbatim>\<open>fetch\<close>.
\<close>

definition askBtn_click ::
  "bool \<Rightarrow> jsstring option \<Rightarrow> chat_payload fetch_result \<Rightarrow> popup \<Rightarrow> popup" where
  "askBtn_click isDetailed hfToken res st =
     (let question = trim (questionInput_value st)
      in if question = [] then st
         else
           (case hfToken of
              None \<Rightarrow> snd (appendMessage (js ''system'')
                  ([0x26A0, 0xFE0F] @ js '' Please save your Hugging Face API token in the API tab first.'')
                  False False False st)
            | Some token \<Rightarrow>
                if token = [] then snd (appendMessage (js ''system'')
                  ([0x26A0, 0xFE0F] @ js '' Please save your Hugging Face API token in the API tab first.'')
                  False False False st)
                else
                  (let st1 = snd (appendMessage (js ''user'') question False False True st);
                       st2 = st1\<lparr>questionInput_value := [], askBtn_disabled := True,
                                 askIcon_className := js ''fas fa-circle-notch fa-spin-custom''\<rparr>;
                       (loadingMsg, st3) = appendMessage (js ''system'') (js ''Analyzing...'')
                                             False False False st2;
                       st4 = fetch (chat_request token question isDetailed) st3;
                       st5 = (case res of
                                NetworkError \<Rightarrow> ask_catch loadingMsg st4
                              | Response ok payload \<Rightarrow>
                                  if \<not> ok then ask_catch loadingMsg st4
                                  else
                                    (case payload of
                                       JsonThrows \<Rightarrow> ask_catch loadingMsg st4
                                     | JsonData answer \<Rightarrow>
                                         (let st' = remove_node loadingMsg st4
                                          in case answer of
                                               None \<Rightarrow> st'
                                             | Some a \<Rightarrow>
                                                 if a = [] then st'
                                                 else
                                                   (case linkifyTimestamps a of
                                                      None \<Rightarrow> ask_catch loadingMsg st'
                                                    | Some linked \<Rightarrow>
                                                        snd (appendMessage (js ''ai'')
                                                               (br_newlines linked) True True True st')))))
                   in st5\<lparr>askBtn_disabled := False,
                          askIcon_className := js ''fas fa-paper-plane''\<rparr>)))"

subsection \<open>What the chat shows\<close>

text \<open>
  The class, the content and the kind of content of a bubble, and what these are for a
  message of a chat history that \<^verbatim>\<open>loadSpecificSession\<close> replays.
\<close>

definition replayed :: "chat_message \<Rightarrow> jsstring \<times> jsstring \<times> bool" where
  "replayed msg = (js ''message '' @ sender msg @ js ''-message'', msg_text msg, isHTML msg)"

definition shown :: "bubble \<Rightarrow> jsstring \<times> jsstring \<times> bool" where
  "shown b = (className b, content b, html b)"

subsection \<open>Example values\<close>

text \<open>
  A popup with no current session, an empty chat and disabled inputs, and a stored session
  with one message, for instances of the theorems below.
\<close>

definition example_popup :: popup where
  "example_popup =
     \<lparr>currentSessionId = None, chat = [], next_node = 0, questionInput_value = [],
      questionInput_disabled = True, askBtn_disabled = True,
      askIcon_className = js ''fas fa-paper-plane'', resyncBtn_disabled = False,
      syncIcon_spinning = False, active_tab = js ''tab-chat'', requests = [],
      storage_calls = []\<rparr>"

definition example_session :: session where
  "example_session =
     \<lparr>timestamp = js ''12/31/2023, 9:00:00 PM'',
      videoUrl = js ''https://www.youtube.com/watch?v=dQw4w9WgXcQ'',
      chatHistory = [\<lparr>sender = js ''user'', msg_text = js ''Hello'', isHTML = False\<rparr>],
      transcriptData = [\<lparr>time = js ''0:00'', text = js ''intro''\<rparr>]\<rparr>"

section \<open>Properties of the timestamp utilities\<close>

subsection \<open>Digits\<close>

lemma unat_digit_char: "d < 10 \<Longrightarrow> unat (0x30 + of_nat d :: code_unit) = 0x30 + d"
proof -
  assume d: "d < 10"
  have "(0x30 + of_nat d :: code_unit) = of_nat (0x30 + d)" by simp
  then have "unat (0x30 + of_nat d :: code_unit) = (0x30 + d) mod 2 ^ 16"
    by (simp only: unat_of_nat len_of_numeral_defs) simp
  with d show ?thesis by simp
qed

lemma digit_char_is_digit: "d < 10 \<Longrightarrow> is_digit (0x30 + of_nat d)"
  unfolding is_digit_def
  by (simp add: word_le_nat_alt unat_digit_char)

lemma digit_char_value: "d < 10 \<Longrightarrow> digit_value (0x30 + of_nat d) = d"
  using digit_char_is_digit [of d]
  by (simp add: digit_value_def unat_digit_char)

lemma is_digit_not_space: "is_digit c \<Longrightarrow> \<not> is_space c"
  unfolding is_digit_def is_space_def
  by (auto simp: word_le_nat_alt)

lemma is_digit_neq: "is_digit c \<Longrightarrow> c \<noteq> 0x3A \<and> c \<noteq> 0x2D \<and> c \<noteq> 0x2B \<and> c \<noteq> 0x78 \<and> c \<noteq> 0x58 \<and> c \<noteq> 0x5B \<and> c \<noteq> 0x28 \<and> c \<noteq> 0x5D \<and> c \<noteq> 0x29"
  unfolding is_digit_def
  by (auto simp: word_le_nat_alt)

lemma decimal_digits: "c \<in> set (decimal n) \<Longrightarrow> is_digit c"
proof (induction n arbitrary: c rule: decimal.induct)
  case (1 n)
  show ?case
  proof (cases "n < 10")
    case True
    with "1.prems" show ?thesis
      by (simp add: decimal.simps [of n] digit_char_is_digit)
  next
    case False
    with "1.prems" have "c \<in> set (decimal (n div 10)) \<or> c = 0x30 + of_nat (n mod 10)"
      by (auto simp: decimal.simps [of n])
    then show ?thesis
      using "1.IH" [OF False] digit_char_is_digit [of "n mod 10"] by auto
  qed
qed

lemma decimal_nonempty: "decimal n \<noteq> []"
  by (simp add: decimal.simps [of n])

lemma dec_value_decimal: "dec_value (decimal n) = n"
proof (induction n rule: decimal.induct)
  case (1 n)
  show ?case
  proof (cases "n < 10")
    case True
    then show ?thesis
      by (simp add: decimal.simps [of n] dec_value_def digit_char_value)
  next
    case False
    have "dec_value (decimal n) = dec_value (decimal (n div 10)) * 10 + n mod 10"
      using False by (simp add: decimal.simps [of n] dec_value_def digit_char_value)
    with "1.IH" [OF False] show ?thesis by simp
  qed
qed

lemma parseInt_digits:
  assumes "ds \<noteq> []" and "\<forall>c \<in> set ds. is_digit c"
  shows "parseInt ds = to_double (int (dec_value ds))"
proof -
  obtain a as where ds: "ds = a # as" using assms(1) by (cases ds) auto
  have a: "is_digit a" using assms(2) ds by simp
  have tw: "takeWhile is_digit ds = ds" using assms(2) by (simp add: takeWhile_eq_all_conv)
  show ?thesis
  proof (cases as)
    case Nil
    with ds a tw show ?thesis
      using is_digit_not_space [OF a] is_digit_neq [OF a]
      by (simp add: parseInt_def dec_value_def)
  next
    case (Cons b bs)
    then have b: "is_digit b" using assms(2) ds by simp
    have tw2: "takeWhile is_digit bs = bs"
      using assms(2) ds Cons by (simp add: takeWhile_eq_all_conv)
    from Cons ds a b show ?thesis
      using is_digit_not_space [OF a] is_digit_neq [OF a] is_digit_neq [OF b]
      by (simp add: parseInt_def dec_value_def tw2)
  qed
qed

lemma pad2_digits: "c \<in> set (pad2 n) \<Longrightarrow> is_digit c"
  by (auto simp: pad2_def is_digit_def dest: decimal_digits split: if_splits)

lemma pad2_nonempty: "pad2 n \<noteq> []"
  by (simp add: pad2_def decimal_nonempty)

lemma dec_value_pad2: "dec_value (pad2 n) = n"
proof -
  have "dec_value (0x30 # ds) = dec_value ds" for ds
    by (simp add: dec_value_def digit_value_def is_digit_def)
  then show ?thesis by (simp add: pad2_def dec_value_decimal)
qed

lemma to_double_exact: "\<bar>n\<bar> < 2 ^ 53 \<Longrightarrow> to_double n = Num n"
  by (simp add: to_double_def)

lemma to_double_nat: "n < 2 ^ 53 \<Longrightarrow> to_double (int n) = Num (int n)"
  by (rule to_double_exact) simp

lemma parseInt_pad2: "n < 2 ^ 53 \<Longrightarrow> parseInt (pad2 n) = Num (int n)"
  using parseInt_digits [of "pad2 n"] pad2_digits pad2_nonempty dec_value_pad2
  by (auto simp: to_double_nat)

lemma Math_pow_60 [simp]:
  "Math_pow 60 0 = Num 1" "Math_pow 60 (Suc 0) = Num 60" "Math_pow 60 (Suc (Suc 0)) = Num 3600"
  by (simp_all add: Math_pow_def to_double_def)

lemma js_mul_nat:
  "a * b < 2 ^ 53 \<Longrightarrow> js_mul (Num (int a)) (Num (int b)) = Num (int (a * b))"
  using to_double_nat [of "a * b"] by simp

lemma js_add_nat:
  "a + b < 2 ^ 53 \<Longrightarrow> js_add (Num (int a)) (Num (int b)) = Num (int (a + b))"
  using to_double_nat [of "a + b"] by simp

text \<open>
  The loop on two and on three fields of decimal digits, while every product and every sum
  stays below \<open>2 ^ 53\<close>, where the arithmetic of doubles is exact.
\<close>

lemma loop_two:
  assumes "parseInt p0 = Num (int s)" and "parseInt p1 = Num (int m)"
    and "s + m * 60 < 2 ^ 53"
  shows "timestampToSeconds_loop [p0, p1] 0 (Num 0) = Num (int (s + m * 60))"
proof -
  have "js_mul (Num (int s)) (Num 1) = Num (int s)"
    using js_mul_nat [of s 1] assms(3) by simp
  moreover have "js_add (Num 0) (Num (int s)) = Num (int s)"
    using js_add_nat [of 0 s] assms(3) by simp
  moreover have "js_mul (Num (int m)) (Num 60) = Num (int (m * 60))"
    using js_mul_nat [of m 60] assms(3) by simp
  moreover have "js_add (Num (int s)) (Num (int (m * 60))) = Num (int (s + m * 60))"
    using assms(3) by (rule js_add_nat)
  ultimately show ?thesis
    using assms(1,2) by simp
qed

lemma loop_three:
  assumes "parseInt p0 = Num (int s)" and "parseInt p1 = Num (int m)"
    and "parseInt p2 = Num (int h)" and "s + m * 60 + h * 3600 < 2 ^ 53"
  shows "timestampToSeconds_loop [p0, p1, p2] 0 (Num 0) = Num (int (s + m * 60 + h * 3600))"
proof -
  have b: "s + m * 60 < 2 ^ 53" using assms(4) by simp
  have "timestampToSeconds_loop [p0, p1, p2] 0 (Num 0)
          = js_add (timestampToSeconds_loop [p0, p1] 0 (Num 0))
                   (js_mul (parseInt p2) (Num 3600))"
    by simp
  moreover have "js_mul (Num (int h)) (Num 3600) = Num (int (h * 3600))"
    using js_mul_nat [of h 3600] assms(4) by simp
  moreover have "js_add (Num (int (s + m * 60))) (Num (int (h * 3600)))
                   = Num (int (s + m * 60 + h * 3600))"
    using assms(4) by (rule js_add_nat)
  ultimately show ?thesis
    by (simp only: loop_two [OF assms(1,2) b] assms(3))
qed

lemma js_split_acc_no_sep:
  "sep \<notin> set xs \<Longrightarrow> js_split_acc sep cur xs = [rev cur @ xs]"
  by (induction xs arbitrary: cur) auto

lemma js_split_acc_sep:
  "sep \<notin> set xs \<Longrightarrow>
   js_split_acc sep cur (xs @ sep # rest) = (rev cur @ xs) # js_split_acc sep [] rest"
  by (induction xs arbitrary: cur) auto

lemma colon_notin_pad2: "0x3A \<notin> set (pad2 n)"
  using pad2_digits is_digit_neq by blast

lemma timestampToSeconds_two:
  assumes "s + m * 60 < 2 ^ 53"
  shows "timestampToSeconds (pad2 m @ [0x3A] @ pad2 s) = Num (int (s + m * 60))"
proof -
  have "js_split 0x3A (pad2 m @ [0x3A] @ pad2 s) = [pad2 m, pad2 s]"
    by (simp add: js_split_def js_split_acc_sep js_split_acc_no_sep colon_notin_pad2)
  moreover have "parseInt (pad2 s) = Num (int s)" "parseInt (pad2 m) = Num (int m)"
    using assms by (simp_all add: parseInt_pad2)
  ultimately show ?thesis
    using loop_two [of "pad2 s" s "pad2 m" m] assms by (simp add: timestampToSeconds_def)
qed

lemma timestampToSeconds_three:
  assumes "s + m * 60 + h * 3600 < 2 ^ 53"
  shows "timestampToSeconds (pad2 h @ [0x3A] @ pad2 m @ [0x3A] @ pad2 s)
           = Num (int (s + m * 60 + h * 3600))"
proof -
  have "js_split 0x3A (pad2 h @ [0x3A] @ pad2 m @ [0x3A] @ pad2 s) = [pad2 h, pad2 m, pad2 s]"
    by (simp add: js_split_def js_split_acc_sep js_split_acc_no_sep colon_notin_pad2)
  moreover have "parseInt (pad2 s) = Num (int s)" "parseInt (pad2 m) = Num (int m)"
      "parseInt (pad2 h) = Num (int h)"
    using assms by (simp_all add: parseInt_pad2)
  ultimately show ?thesis
    using loop_three [of "pad2 s" s "pad2 m" m "pad2 h" h] assms
    by (simp add: timestampToSeconds_def)
qed

subsection \<open>The round trip of a citation label\<close>

lemma hms_two: "d div 3600 = 0 \<Longrightarrow> d mod 60 + d mod 3600 div 60 * 60 = (d::nat)"
  by (simp add: div_eq_0_iff)

lemma hms_three: "d mod 60 + d mod 3600 div 60 * 60 + d div 3600 * 3600 = (d::nat)"
proof -
  have "d mod 3600 mod 60 = d mod 60"
    by (simp add: mod_mod_cancel)
  then have "d mod 60 + d mod 3600 div 60 * 60 = d mod 3600"
    by (metis mod_div_mult_eq add.commute)
  then show ?thesis by simp
qed

text \<open>
  Claim C1. For every duration \<open>d\<close> below \<open>2 ^ 53\<close> seconds, the canonical label of \<open>d\<close>
  (\<^verbatim>\<open>MM:SS\<close> when the hour component is zero, \<^verbatim>\<open>HH:MM:SS\<close> otherwise) is parsed by
  \<^verbatim>\<open>timestampToSeconds\<close> to exactly \<open>d\<close>: the result is the number \<open>d\<close>, not \<^verbatim>\<open>NaN\<close>.
  The bound is needed: the seconds are a double, and from \<open>2 ^ 53\<close> on not every integer is
  one.
\<close>

theorem citation_roundtrip:
  assumes "d < 2 ^ 53"
  shows "timestampToSeconds (map_to_citation d) = Num (int d)"
proof (cases "d div 3600 = 0")
  case True
  have e: "d mod 60 + d mod 3600 div 60 * 60 = d"
    by (rule hms_two [OF True])
  have "timestampToSeconds (pad2 (d mod 3600 div 60) @ [0x3A] @ pad2 (d mod 60))
          = Num (int (d mod 60 + d mod 3600 div 60 * 60))"
    by (rule timestampToSeconds_two) (simp only: e assms)
  moreover have "map_to_citation d = pad2 (d mod 3600 div 60) @ [0x3A] @ pad2 (d mod 60)"
    using True by (simp add: map_to_citation_def)
  ultimately show ?thesis
    by (simp only: e)
next
  case False
  have e: "d mod 60 + d mod 3600 div 60 * 60 + d div 3600 * 3600 = d"
    by (rule hms_three)
  have "timestampToSeconds
          (pad2 (d div 3600) @ [0x3A] @ pad2 (d mod 3600 div 60) @ [0x3A] @ pad2 (d mod 60))
          = Num (int (d mod 60 + d mod 3600 div 60 * 60 + d div 3600 * 3600))"
    by (rule timestampToSeconds_three) (simp only: e assms)
  moreover have "map_to_citation d =
      pad2 (d div 3600) @ [0x3A] @ pad2 (d mod 3600 div 60) @ [0x3A] @ pad2 (d mod 60)"
    using False by (simp add: map_to_citation_def)
  ultimately show ?thesis
    by (simp only: e)
qed

theorem citation_roundtrip_witness:
  "(3725::nat) < 2 ^ 53 \<and> timestampToSeconds (map_to_citation 3725) = Num 3725"
proof -
  have h: "(3725::nat) < 2 ^ 53" by simp
  from citation_roundtrip [OF h] show ?thesis by simp
qed

text \<open>
  Beyond the bound the round trip fails. The label of \<open>2 ^ 63 + 11\<close> seconds is
  \<^verbatim>\<open>2562047788015215:30:19\<close>; its hours are a double, but their product with 3600,
  9223372036854774000, is not and rounds to 9223372036854773760, and the sum with the 1819
  seconds of the other two fields rounds to \<open>2 ^ 63\<close>: eleven seconds less than the
  duration, which is outside a tolerance of one second too.
\<close>

lemma label_counterexample:
  "map_to_citation 9223372036854775819 = js ''2562047788015215:30:19''"
  by (simp add: map_to_citation_def pad2_def decimal.simps js_def)

lemma split_counterexample:
  "js_split 0x3A (js ''2562047788015215:30:19'')
     = [js ''2562047788015215'', js ''30'', js ''19'']"
  by (simp add: js_split_def js_def)

lemma parseInt_counterexample:
  "parseInt (js ''19'') = Num 19" "parseInt (js ''30'') = Num 30"
  "parseInt (js ''2562047788015215'') = Num 2562047788015215"
  by (simp_all add: js_def parseInt_def is_space_def is_digit_def digit_value_def to_double_def)

lemma product_rounded: "to_double 9223372036854774000 = Num 9223372036854773760"
proof -
  have "width 9223372036854774000 = 63" by (simp add: width.simps)
  then show ?thesis by (simp add: to_double_def)
qed

lemma sum_rounded: "to_double 9223372036854775579 = Num 9223372036854775808"
proof -
  have "width 9223372036854775579 = 63" by (simp add: width.simps)
  then show ?thesis by (simp add: to_double_def)
qed

lemma seconds_counterexample:
  "timestampToSeconds (js ''2562047788015215:30:19'') = Num 9223372036854775808"
  by (simp add: timestampToSeconds_def split_counterexample parseInt_counterexample
        to_double_exact product_rounded sum_rounded)

theorem citation_roundtrip_counterexample:
  "map_to_citation (2 ^ 63 + 11) = js ''2562047788015215:30:19'' \<and>
   timestampToSeconds (map_to_citation (2 ^ 63 + 11)) = Num (2 ^ 63) \<and>
   timestampToSeconds (map_to_citation (2 ^ 63 + 11)) \<noteq> Num (int (2 ^ 63 + 11)) \<and>
   \<not> (\<exists>n. timestampToSeconds (map_to_citation (2 ^ 63 + 11)) = Num n \<and>
            \<bar>n - int (2 ^ 63 + 11)\<bar> \<le> 1)"
proof -
  have "(2 ^ 63 + 11 :: nat) = 9223372036854775819" by simp
  moreover have "(2 ^ 63 :: int) = 9223372036854775808" by simp
  ultimately show ?thesis
    by (simp add: label_counterexample seconds_counterexample)
qed

section \<open>Properties of \<^verbatim>\<open>linkifyTimestamps\<close>\<close>

subsection \<open>The matcher\<close>

lemma lift_simps [simp]: "fst (lift w st) = fst st @ w" "snd (lift w st) = snd st"
  by (simp_all add: lift_def)



lemma matches_rejects:
  "rejects r x \<Longrightarrow> matches r (lift (x # v) st) = map (lift (x # v)) (matches r st)"
proof (induction r st rule: matches.induct)
  case (1 p st)
  then show ?case by (cases "fst st") (auto simp: lift_def)
next
  case (2 a b st)
  have "matches (Cat a b) (lift (x # v) st)
          = concat (map (matches b) (map (lift (x # v)) (matches a st)))"
    using 2 by simp
  also have "\<dots> = concat (map (\<lambda>y. map (lift (x # v)) (matches b y)) (matches a st))"
    using 2 by (simp add: comp_def cong: map_cong)
  also have "\<dots> = map (lift (x # v)) (matches (Cat a b) st)"
    by (simp add: map_concat comp_def)
  finally show ?case .
next
  case (3 a st)
  then show ?case by (simp add: filter_map comp_def)
next
  case (4 a st)
  let ?L = "lift (x # v)"
  have r: "rejects a x" "rejects (Star a) x"
    using "4.prems" by simp_all
  have a: "matches a (?L st) = map ?L (matches a st)"
    using "4.IH"(1) r by simp
  have s: "y \<in> set (matches a st) \<Longrightarrow> length (fst y) < length (fst st) \<Longrightarrow>
             matches (Star a) (?L y) = map ?L (matches (Star a) y)" for y
    using "4.IH"(2) r by blast
  have "matches (Star a) (?L st)
          = concat (map (\<lambda>st'. if length (fst st') < length (fst (?L st))
                                then matches (Star a) st' else [])
                        (map ?L (matches a st))) @ [?L st]"
    by (subst matches.simps(4)) (simp only: a)
  also have "\<dots> = concat (map (\<lambda>y. if length (fst y) < length (fst st)
                                    then matches (Star a) (?L y) else [])
                            (matches a st)) @ [?L st]"
    by (simp add: comp_def)
  also have "\<dots> = concat (map (\<lambda>y. map ?L (if length (fst y) < length (fst st)
                                    then matches (Star a) y else []))
                            (matches a st)) @ [?L st]"
  proof -
    have "map (\<lambda>y. if length (fst y) < length (fst st) then matches (Star a) (?L y) else [])
              (matches a st)
          = map (\<lambda>y. map ?L (if length (fst y) < length (fst st) then matches (Star a) y else []))
              (matches a st)"
    proof (rule map_cong [OF refl])
      fix y assume "y \<in> set (matches a st)"
      then show "(if length (fst y) < length (fst st) then matches (Star a) (?L y) else [])
                 = map ?L (if length (fst y) < length (fst st) then matches (Star a) y else [])"
        using s [of y] by (simp only: if_distrib [of "map ?L"] list.map split: if_split) simp
    qed
    then show ?thesis by (simp only:)
  qed
  also have "\<dots> = map ?L (concat (map (\<lambda>y. if length (fst y) < length (fst st)
                                    then matches (Star a) y else [])
                            (matches a st)) @ [st])"
    by (simp add: map_concat comp_def)
  also have "\<dots> = map ?L (matches (Star a) st)"
    by (subst (2) matches.simps(4)) (rule refl)
  finally show ?case .
next
  case (5 i a st)
  have "take (length (fst st) + length (x # v) - (length (fst y) + length (x # v))) (fst st @ x # v)
          = take (length (fst st) - length (fst y)) (fst st)" for y
    by simp
  with 5 show ?case
    by (simp add: comp_def lift_def)
qed


lemma not_digit_colon [simp]: "\<not> is_digit 0x3A"
  by (simp add: is_digit_def)

lemma rx_timestamp_alt:
  "rx_timestamp = Cat rx_digit (Cat (Opt rx_digit) (Cat rx_colon (Cat rx_digit (Cat rx_digit (Opt rx_third)))))"
  by (simp add: rx_timestamp_def rx_third_def)




subsection \<open>The shapes of a timestamp\<close>




subsection \<open>The star of a character class\<close>




subsection \<open>Captures\<close>


subsection \<open>The first match\<close>






lemma first_match_Cls:
  "p c \<Longrightarrow> first_match (Cls p) (c # cs, caps) = Some (cs, caps)"
  by (simp add: first_match_def)

lemma first_match_None: "first_match r st = None \<longleftrightarrow> matches r st = []"
  by (simp add: first_match_def split: list.splits)

subsection \<open>Matching a timestamp\<close>




subsection \<open>Where no timestamp starts\<close>

lemma rx_timestamp_tail:
  "rx_timestamp = Cat rx_digit (Cat (Opt rx_digit) rx_mmss_tail)"
  by (simp add: rx_timestamp_alt rx_mmss_tail_def)



lemma matches_timestamp_Nil: "matches rx_timestamp ([], caps) = []"
  by (simp add: rx_timestamp_tail rx_digit_def del: matches.simps(3))


subsection \<open>The end of a range\<close>

lemma not_space_hyphen [simp]: "\<not> is_space 0x2D"
  by (simp add: is_space_def)




lemma first_match_cong: "matches r st = matches r' st' \<Longrightarrow> first_match r st = first_match r' st'"
  by (simp add: first_match_def)






subsection \<open>After the opening bracket\<close>





subsection \<open>The regular expression on a marker\<close>






subsection \<open>Every match consumes input and sets the first group\<close>







subsection \<open>One step of the replacement\<close>





subsection \<open>A point that no match crosses\<close>

lemma lift_lift: "lift w (lift v st) = lift (v @ w) st"
  by (simp add: lift_def)



subsection \<open>Where no match starts\<close>





subsection \<open>An opening bracket ends every match before it\<close>





subsection \<open>A character that only ends a match\<close>

lemma after_rejects:
  assumes "rejects r y"
  shows "matches r (lift (y # w) st) = map (lift w) (matches r (lift [y] st))"
proof -
  have "matches r (lift [y] st) = map (lift [y]) (matches r st)"
    using assms by (rule matches_rejects)
  moreover have "matches r (lift (y # w) st) = map (lift (y # w)) (matches r st)"
    using assms by (rule matches_rejects)
  ultimately show ?thesis by (simp add: lift_lift comp_def)
qed





subsection \<open>Delimited on the left\<close>


subsection \<open>Text without a colon\<close>




subsection \<open>The seconds of a timestamp\<close>






subsection \<open>The three forms of a marker\<close>








subsection \<open>A bare pair of numbers\<close>

text \<open>
  Claim C7. There is an answer in which a bare pair of numbers separated by a colon, with
  no bracket around it and not meant as a timestamp, is turned into a clickable anchor of
  class \<^verbatim>\<open>time-link\<close>: in ``The ratio is 3:45 overall'' the pair \<^verbatim>\<open>3:45\<close> becomes a link that
  seeks to second 225.
\<close>

theorem linkify_bare_number_pair:
  \<open>linkifyTimestamps (js ''The ratio is 3:45 overall'') =
     Some (js ''The ratio is <a href="#" class="time-link" data-time="225">3:45</a> overall'')\<close>
  by code_simp

section \<open>Properties of the popup\<close>

lemma appendMessage_requests: "requests (snd (appendMessage a b c d e st)) = requests st"
  by (simp add: appendMessage_def Let_def)

lemma appendMessage_current: "currentSessionId (snd (appendMessage a b c d e st)) = currentSessionId st"
  by (simp add: appendMessage_def Let_def)

lemma appendMessage_unsaved_storage:
  "storage_calls (snd (appendMessage a b c d False st)) = storage_calls st"
  by (simp add: appendMessage_def Let_def)

lemma appendMessage_chat:
  "chat (snd (appendMessage a b c d e st)) =
     chat st @ [\<lparr>node = next_node st, className = js ''message '' @ a @ js ''-message'',
                 content = b, html = c, typewriter = (d \<and> c)\<rparr>]"
  by (simp add: appendMessage_def Let_def)

lemma appendMessage_fst: "fst (appendMessage a b c d e st) = next_node st"
  by (simp add: appendMessage_def Let_def)

lemma fold_delete:
  "fold (\<lambda>sid d. d(sid := None)) selected (data :: sessions) =
     (\<lambda>sid. if sid \<in> set selected then None else data sid)"
  by (induction selected arbitrary: data) (auto simp: fun_eq_iff)

lemma replay_shown:
  "map shown (chat (fold (\<lambda>msg s. snd (appendMessage (sender msg) (msg_text msg) (isHTML msg)
                                           False False s)) msgs st)) =
     map shown (chat st) @ map replayed msgs"
  by (induction msgs arbitrary: st) (simp_all add: appendMessage_chat shown_def replayed_def)

lemma replay_frame:
  "requests (fold (\<lambda>msg s. snd (appendMessage (sender msg) (msg_text msg) (isHTML msg)
                                           False False s)) msgs st) = requests st"
  "storage_calls (fold (\<lambda>msg s. snd (appendMessage (sender msg) (msg_text msg) (isHTML msg)
                                           False False s)) msgs st) = storage_calls st"
  "currentSessionId (fold (\<lambda>msg s. snd (appendMessage (sender msg) (msg_text msg) (isHTML msg)
                                           False False s)) msgs st) = currentSessionId st"
  by (induction msgs arbitrary: st)
     (simp_all add: appendMessage_requests appendMessage_unsaved_storage appendMessage_current)

subsection \<open>A page without a transcript\<close>

text \<open>
  Claim C3. On a page with no transcript segment node \<^verbatim>\<open>surgicalExtract\<close> returns \<^verbatim>\<open>null\<close>
  (\<open>None\<close>), not an empty list. The resync handler then makes no request to the backend,
  registers no write to the storage and leaves \<^verbatim>\<open>currentSessionId\<close> as it was, whatever the
  backend would have answered; the chat shows the sync-failure message after the message
  that announced the sync.
\<close>

theorem resync_without_transcript:
  assumes "js_includes tab_url (js ''youtube.com/watch'')"
  shows "surgicalExtract [] = None \<and>
   requests (resyncBtn_click (Some tab_url) (ScriptRuns []) res now_ms st) = requests st \<and>
   storage_calls (resyncBtn_click (Some tab_url) (ScriptRuns []) res now_ms st) = storage_calls st \<and>
   currentSessionId (resyncBtn_click (Some tab_url) (ScriptRuns []) res now_ms st) = currentSessionId st \<and>
   map content (chat (resyncBtn_click (Some tab_url) (ScriptRuns []) res now_ms st)) =
        [[0xD83D, 0xDE80] @ js '' <b>Syncing New Video...</b>'',
         [0x274C] @ js '' Sync Failed: Ensure subtitles are available and the server is running.'']"
proof -
  have e: "surgicalExtract [] = None"
    by (simp add: surgicalExtract_def)
  show ?thesis
    using assms
    by (simp add: resyncBtn_click_def e resync_not_valid_def resync_catch_def resync_finally_def
        appendMessage_def Let_def)
qed

text \<open>
  An instance on a concrete watch page, with the popup in the example state.
\<close>

theorem resync_without_transcript_witness:
  "js_includes (js ''https://www.youtube.com/watch?v=dQw4w9WgXcQ'') (js ''youtube.com/watch'') \<and>
   (surgicalExtract [] = None \<and>
    requests (resyncBtn_click (Some (js ''https://www.youtube.com/watch?v=dQw4w9WgXcQ''))
                (ScriptRuns []) (Response True ()) (js ''1700000000000'') example_popup)
      = requests example_popup \<and>
    storage_calls (resyncBtn_click (Some (js ''https://www.youtube.com/watch?v=dQw4w9WgXcQ''))
                (ScriptRuns []) (Response True ()) (js ''1700000000000'') example_popup)
      = storage_calls example_popup \<and>
    currentSessionId (resyncBtn_click (Some (js ''https://www.youtube.com/watch?v=dQw4w9WgXcQ''))
                (ScriptRuns []) (Response True ()) (js ''1700000000000'') example_popup)
      = currentSessionId example_popup \<and>
    map content (chat (resyncBtn_click (Some (js ''https://www.youtube.com/watch?v=dQw4w9WgXcQ''))
                (ScriptRuns []) (Response True ()) (js ''1700000000000'') example_popup)) =
        [[0xD83D, 0xDE80] @ js '' <b>Syncing New Video...</b>'',
         [0x274C] @ js '' Sync Failed: Ensure subtitles are available and the server is running.''])"
proof -
  have h: "js_includes (js ''https://www.youtube.com/watch?v=dQw4w9WgXcQ'') (js ''youtube.com/watch'')"
    by code_simp
  show ?thesis
    using h resync_without_transcript [OF h] by (rule conjI)
qed

subsection \<open>The records of the transcript\<close>

text \<open>
  Claim C4. \<^verbatim>\<open>surgicalExtract\<close> produces one record for every segment node. In the record of
  a segment without timestamp element the \<^verbatim>\<open>time\<close> is \<^verbatim>\<open>"0:00"\<close>, and in the record of a segment
  without text element the \<^verbatim>\<open>text\<close> is the empty string; both fields are strings in every
  record, and \<^verbatim>\<open>time\<close> is never the empty string.
\<close>

theorem surgicalExtract_defaults:
  assumes "surgicalExtract segments = Some records" and "i < length segments"
  shows "length records = length segments \<and>
         (segment_timestamp (segments ! i) = None \<longrightarrow> time (records ! i) = js ''0:00'') \<and>
         (segment_text (segments ! i) = None \<longrightarrow> text (records ! i) = []) \<and>
         time (records ! i) \<noteq> []"
  using assms
  by (auto simp: surgicalExtract_def js_or_def js_def split: if_splits option.splits)

theorem surgicalExtract_defaults_witness:
  "surgicalExtract [\<lparr>segment_timestamp = None, segment_text = None\<rparr>]
      = Some [\<lparr>time = js ''0:00'', text = []\<rparr>] \<and>
   (0::nat) < length [\<lparr>segment_timestamp = None, segment_text = None\<rparr>] \<and>
   length [\<lparr>time = js ''0:00'', text = []\<rparr>]
      = length [\<lparr>segment_timestamp = None, segment_text = None\<rparr>] \<and>
   time ([\<lparr>time = js ''0:00'', text = []\<rparr>] ! 0) = js ''0:00'' \<and>
   text ([\<lparr>time = js ''0:00'', text = []\<rparr>] ! 0) = [] \<and>
   time ([\<lparr>time = js ''0:00'', text = []\<rparr>] ! 0) \<noteq> []"
proof -
  have h1: "surgicalExtract [\<lparr>segment_timestamp = None, segment_text = None\<rparr>]
              = Some [\<lparr>time = js ''0:00'', text = []\<rparr>]"
    by (simp add: surgicalExtract_def js_or_def js_def)
  have h2: "(0::nat) < length [\<lparr>segment_timestamp = None, segment_text = None\<rparr>]"
    by simp
  show ?thesis
    using h1 h2 surgicalExtract_defaults [OF h1 h2] by simp
qed

subsection \<open>Restoring a session\<close>

text \<open>
  Claim C5. For every session stored under an id, \<^verbatim>\<open>loadSpecificSession\<close> makes exactly one
  request: a \<^verbatim>\<open>POST\<close> to \<^verbatim>\<open>/save_transcript\<close> on the backend, with a JSON body whose only
  field, \<^verbatim>\<open>transcript\<close>, is the session's \<^verbatim>\<open>transcriptData\<close>, record by record. When the
  response is ok the chat shows the messages of the session's history and the question
  input and the ask button are enabled. Otherwise (the request fails or the response is not
  ok) the chat shows the failure message, and the input and the button are in the state
  they were in before.
\<close>

lemma save_transcript_request_record:
  "save_transcript_request t =
     \<lparr>url = js ''https://omnbhaltilak-youtube-rag-backend.hf.space/save_transcript'',
      http_method = js ''POST'',
      headers = [(js ''Content-Type'', js ''application/json'')],
      body = Some (JObject
        [(js ''transcript'',
          JArray (map (\<lambda>r. JObject [(js ''time'', JString (time r)),
                                     (js ''text'', JString (text r))]) t))])\<rparr>"
  by (simp add: save_transcript_request_def transcript_json_def BACKEND_URL_def js_def)

theorem loadSpecificSession_restores:
  assumes "data sid = Some s"
  shows "requests (loadSpecificSession sid data res st)
           = requests st @
               [\<lparr>url = js ''https://omnbhaltilak-youtube-rag-backend.hf.space/save_transcript'',
                 http_method = js ''POST'',
                 headers = [(js ''Content-Type'', js ''application/json'')],
                 body = Some (JObject
                   [(js ''transcript'',
                     JArray (map (\<lambda>r. JObject [(js ''time'', JString (time r)),
                                                (js ''text'', JString (text r))])
                                 (transcriptData s)))])\<rparr>] \<and>
         (if res = Response True ()
          then map shown (chat (loadSpecificSession sid data res st)) = map replayed (chatHistory s)
             \<and> \<not> questionInput_disabled (loadSpecificSession sid data res st)
             \<and> \<not> askBtn_disabled (loadSpecificSession sid data res st)
          else map content (chat (loadSpecificSession sid data res st)) =
                 [[0x274C] @ js '' Failed to restore context with server. Ensure the server is running.'']
             \<and> questionInput_disabled (loadSpecificSession sid data res st) = questionInput_disabled st
             \<and> askBtn_disabled (loadSpecificSession sid data res st) = askBtn_disabled st)"
proof -
  have r: "sessions_read data sid = Stored s"
    using assms by (simp add: sessions_read_def)
  show ?thesis
  proof (cases res)
    case NetworkError
    then show ?thesis
      by (simp add: loadSpecificSession_def r appendMessage_def remove_node_def fetch_def Let_def
          save_transcript_request_record)
  next
    case (Response ok u)
    show ?thesis
    proof (cases ok)
      case True
      with Response show ?thesis
        by (simp add: loadSpecificSession_def r Let_def split_beta replay_shown replay_frame
            remove_node_def fetch_def appendMessage_chat appendMessage_fst appendMessage_requests
            save_transcript_request_record)
    next
      case False
      with Response show ?thesis
        by (simp add: loadSpecificSession_def r appendMessage_def remove_node_def fetch_def Let_def
            save_transcript_request_record)
    qed
  qed
qed

theorem loadSpecificSession_restores_witness:
  "[js ''1700000000000'' \<mapsto> example_session] (js ''1700000000000'') = Some example_session \<and>
   requests (loadSpecificSession (js ''1700000000000'') [js ''1700000000000'' \<mapsto> example_session]
                (Response False ()) example_popup)
     = requests example_popup @
         [\<lparr>url = js ''https://omnbhaltilak-youtube-rag-backend.hf.space/save_transcript'',
                 http_method = js ''POST'',
                 headers = [(js ''Content-Type'', js ''application/json'')],
                 body = Some (JObject
                   [(js ''transcript'',
                     JArray (map (\<lambda>r. JObject [(js ''time'', JString (time r)),
                                                (js ''text'', JString (text r))])
                                 (transcriptData example_session)))])\<rparr>] \<and>
   map content (chat (loadSpecificSession (js ''1700000000000'')
                 [js ''1700000000000'' \<mapsto> example_session] (Response False ()) example_popup)) =
     [[0x274C] @ js '' Failed to restore context with server. Ensure the server is running.''] \<and>
   questionInput_disabled (loadSpecificSession (js ''1700000000000'')
                 [js ''1700000000000'' \<mapsto> example_session] (Response False ()) example_popup)
     = questionInput_disabled example_popup \<and>
   askBtn_disabled (loadSpecificSession (js ''1700000000000'')
                 [js ''1700000000000'' \<mapsto> example_session] (Response False ()) example_popup)
     = askBtn_disabled example_popup"
proof -
  have h: "[js ''1700000000000'' \<mapsto> example_session] (js ''1700000000000'') = Some example_session"
    by simp
  have "Response False () \<noteq> (Response True () :: unit fetch_result)"
    by simp
  then show ?thesis
    using h loadSpecificSession_restores
      [where data = "[js ''1700000000000'' \<mapsto> example_session]"
         and sid = "js ''1700000000000''" and s = example_session
         and res = "Response False ()" and st = example_popup, OF h]
    by (simp only: if_False simp_thms)
qed

subsection \<open>The request of a question\<close>

text \<open>
  Claim C6. The ask handler makes at most one request. It makes none when the trimmed
  question is empty or no token is stored. Otherwise it makes one \<^verbatim>\<open>POST\<close> to \<^verbatim>\<open>/chat\<close> whose
  JSON body has exactly the fields \<^verbatim>\<open>question\<close>, the trimmed content of the input, and
  \<^verbatim>\<open>mode\<close>, which is \<^verbatim>\<open>"detailed"\<close> when the checkbox is checked and \<^verbatim>\<open>"concise"\<close> otherwise.
\<close>

theorem ask_chat_request:
  "requests (askBtn_click isDetailed hfToken res st) =
     requests st @
       (case hfToken of
          None \<Rightarrow> []
        | Some token \<Rightarrow>
            if trim (questionInput_value st) = [] \<or> token = [] then []
            else [\<lparr>url = BACKEND_URL @ js ''/chat'', http_method = js ''POST'',
                   headers = [(js ''Content-Type'', js ''application/json''),
                              (js ''X-HF-Token'', token)],
                   body = Some (JObject
                     [(js ''question'', JString (trim (questionInput_value st))),
                      (js ''mode'', JString (if isDetailed then js ''detailed''
                                             else js ''concise''))])\<rparr>])"
  by (simp add: askBtn_click_def Let_def split_beta ask_catch_def appendMessage_requests
      remove_node_def fetch_def chat_request_def
      split: option.split fetch_result.split chat_payload.split)

subsection \<open>The session records in the storage\<close>




subsection \<open>Clearing\<close>

text \<open>
  Claim C9. When the request to \<^verbatim>\<open>/clear_context\<close> fails (the \<^verbatim>\<open>fetch\<close> throws),
  \<^verbatim>\<open>performFullClear\<close> registers no callback on the storage, so that \<^verbatim>\<open>sessions\<close> is left as
  it is, and \<^verbatim>\<open>currentSessionId\<close> keeps its value.
\<close>

theorem clear_failure_keeps_local_state:
  "storage_calls (performFullClear confirmClear NetworkError st) = storage_calls st \<and>
   currentSessionId (performFullClear confirmClear NetworkError st) = currentSessionId st"
  by (simp add: performFullClear_def Let_def fetch_def appendMessage_unsaved_storage
      appendMessage_current)

text \<open>
  Claim C10. With no checkbox checked \<^verbatim>\<open>clearSelectedHistory\<close> returns without any call to
  the storage. Otherwise it registers one callback, and the \<^verbatim>\<open>sessions\<close> object that this
  callback writes has no record under a selected id and, under every other id, the record
  that the storage had.
\<close>

theorem clearSelectedHistory_frame:
  "clearSelectedHistory [] st = st \<and>
   storage_calls (clearSelectedHistory selected st) =
     storage_calls st @ (if selected = [] then [] else [DeleteSelected selected]) \<and>
   run_callback (DeleteSelected selected) cur now data =
     Some (\<lambda>sid. if sid \<in> set selected then None else data sid)"
  by (simp add: clearSelectedHistory_def storage_get_def fold_delete)

end
